theory Spec2Isabelle
  imports Complex_Main "HOL-Library.Word"
begin

unbundle bit_operations_syntax

section \<open>The star-system generator of src/generators/orbit.js\<close>

text \<open>
  A shallow embedding of the generation pipeline of \<^verbatim>\<open>orbit.js\<close>.

  Numbers. The 32-bit state of the seeded generator is a \<open>32 word\<close>. Every other
  JavaScript number is modelled as a \<open>real\<close> (or an \<open>int\<close> where the code floors):
  the arithmetic is the exact one, without the rounding, the infinities and the NaN of
  IEEE doubles. \<open>Math.sqrt\<close> and \<open>Math.log\<close> return NaN below zero, which a real
  cannot express, so every statement about them is made for arguments where they are
  defined.

  Randomness. The code draws from two sources: the seeded closure \<open>random\<close> (a
  splitmix32 generator held in a module variable) and the engine's \<open>Math.random\<close>.
  Both are part of the explicit state \<open>rng\<close>; \<open>Math.random\<close> is the sequence of
  values the engine is going to return, which no seed controls.

  Errors. Reading a property of \<open>undefined\<close> throws a TypeError; the functions that can
  do so return \<open>error + result\<close>. The state of the generators after a throw is not
  modelled.
\<close>

subsection \<open>Values and records\<close>

datatype error = TypeError

record habitableZone =
  hz_innerBoundary :: real
  hz_outerBoundary :: real

text \<open>A star as \<open>generateParentStar\<close> builds it; \<open>generateOrbit\<close> adds the
  \<open>habitableZone\<close> property afterwards, so it is optional (\<open>None\<close> is \<open>undefined\<close>).
  The type is an element of an array read by index, so it is optional too.\<close>

record star =
  star_type :: "string option"
  star_age :: real
  star_size :: real
  star_mass :: real
  star_luminosity :: real
  star_habitableZone :: "habitableZone option"

record planet =
  planet_type :: string
  planet_orbitRadius :: real
  planet_size :: real
  planet_radius :: real
  planet_atmosphere :: "string option"
  planet_moons :: int
  planet_axialTilt :: real

record orbit =
  orbit_parentStar :: star
  orbit_solarSystem :: "planet list"
  orbit_habitableZone :: "habitableZone option"

record rng =
  seeded :: "32 word"
  unseeded :: "nat \<Rightarrow> real"

text \<open>\<open>xs[i]\<close> in JavaScript: \<open>undefined\<close> outside the array.\<close>

definition array_get :: "'a list \<Rightarrow> int \<Rightarrow> 'a option" where
  "array_get xs i = (if 0 \<le> i \<and> i < int (length xs) then Some (xs ! nat i) else None)"

subsection \<open>The two random sources\<close>

text \<open>One call of the closure returned by \<open>splitmix32(a)\<close>: the new value of \<open>a\<close> and
  the 32-bit output \<open>t >>> 0\<close>.\<close>

definition splitmix32 :: "32 word \<Rightarrow> 32 word \<times> 32 word" where
  "splitmix32 a =
     (let a1 = a + 0x9e3779b9;
          t1 = a1 XOR drop_bit 16 a1;
          t2 = t1 * 0x21f0aaad;
          t3 = t2 XOR drop_bit 15 t2;
          t4 = t3 * 0x735a2d97;
          t5 = t4 XOR drop_bit 15 t4
      in (a1, t5))"

text \<open>\<open>random()\<close>: the output divided by \<open>4294967296\<close>.\<close>

definition random :: "rng \<Rightarrow> real \<times> rng" where
  "random s =
     (let (a1, t) = splitmix32 (seeded s)
      in (real (unat t) / 4294967296, s\<lparr>seeded := a1\<rparr>))"

text \<open>\<open>Math.random()\<close>: the next value of the engine's own sequence.\<close>

definition mathRandom :: "rng \<Rightarrow> real \<times> rng" where
  "mathRandom s = (unseeded s 0, s\<lparr>unseeded := (\<lambda>n. unseeded s (Suc n))\<rparr>)"

text \<open>\<open>set_random_seed(seed)\<close> for an integer seed: the first \<open>a |= 0\<close> reduces it
  to 32 bits.\<close>

definition set_random_seed :: "int \<Rightarrow> rng \<Rightarrow> rng" where
  "set_random_seed seed s = s\<lparr>seeded := word_of_int seed\<rparr>"

definition getRandomValue :: "real \<Rightarrow> real \<Rightarrow> rng \<Rightarrow> real \<times> rng" where
  "getRandomValue mn mx s = (let (r, s1) = random s in (r * (mx - mn) + mn, s1))"

definition getRandomAge :: "real \<Rightarrow> real \<Rightarrow> rng \<Rightarrow> real \<times> rng" where
  "getRandomAge mn mx s = (let (r, s1) = random s in (r * (mx - mn) + mn, s1))"

definition getRandomInt :: "int \<Rightarrow> int \<Rightarrow> rng \<Rightarrow> int \<times> rng" where
  "getRandomInt mn mx s =
     (let (r, s1) = random s in (\<lfloor>r * real_of_int (mx - mn + 1)\<rfloor> + mn, s1))"

subsection \<open>The parent star\<close>

definition calculateHabitableZone :: "real \<Rightarrow> habitableZone" where
  "calculateHabitableZone luminosity =
     (let innerBoundary = sqrt (luminosity / 1.1);
          outerBoundary = sqrt (luminosity / 0.53)
      in \<lparr>hz_innerBoundary = innerBoundary, hz_outerBoundary = outerBoundary\<rparr>)"

definition generateStarAge :: "string option \<Rightarrow> rng \<Rightarrow> real \<times> rng" where
  "generateStarAge t s =
     (if t = Some ''M'' then getRandomAge 1 5000 s
      else if t = Some ''K'' then getRandomAge 1 30 s
      else if t = Some ''G'' then getRandomAge 1 10 s
      else if t = Some ''F'' then getRandomAge 1 4 s
      else if t = Some ''A'' then getRandomAge 0.1 3 s
      else if t = Some ''B'' then getRandomAge 0.01 0.5 s
      else if t = Some ''O'' then getRandomAge 0.001 0.1 s
      else (0, s))"

text \<open>The two draws of one case of the switch in \<open>generateStarSizeAndMass\<close>: the
  size first, then the mass.\<close>

definition draw_size_mass :: "real \<Rightarrow> real \<Rightarrow> real \<Rightarrow> real \<Rightarrow> rng \<Rightarrow> (real \<times> real) \<times> rng" where
  "draw_size_mass s_lo s_hi m_lo m_hi s =
     (let (sz, s1) = getRandomValue s_lo s_hi s;
          (ms, s2) = getRandomValue m_lo m_hi s1
      in ((sz, ms), s2))"

text \<open>\<open>generateStarSizeAndMass(type, age)\<close>: the age is not used.\<close>

definition generateStarSizeAndMass :: "string option \<Rightarrow> real \<Rightarrow> rng \<Rightarrow> (real \<times> real) \<times> rng" where
  "generateStarSizeAndMass t age s =
     (if t = Some ''M'' then draw_size_mass 0.1 0.7 0.08 0.45 s
      else if t = Some ''K'' then draw_size_mass 0.7 0.96 0.45 0.8 s
      else if t = Some ''G'' then draw_size_mass 0.96 1.15 0.8 1.04 s
      else if t = Some ''F'' then draw_size_mass 1.15 1.4 1.04 1.4 s
      else if t = Some ''A'' then draw_size_mass 1.4 1.8 1.4 2.1 s
      else if t = Some ''B'' then draw_size_mass 1.8 6.6 2.1 16 s
      else if t = Some ''O'' then draw_size_mass 6.6 20 16 90 s
      else ((0, 0), s))"

definition generateStarLuminosity :: "string option \<Rightarrow> real \<Rightarrow> real" where
  "generateStarLuminosity t sz =
     (if t = Some ''M'' then sz * 0.08
      else if t = Some ''K'' then sz * 0.6
      else if t = Some ''G'' then sz
      else if t = Some ''F'' then sz * 1.5
      else if t = Some ''A'' then sz * 5
      else if t = Some ''B'' then sz * 25
      else if t = Some ''O'' then sz * 50
      else 0)"

definition starTypes :: "string list" where
  "starTypes = [''M'', ''K'', ''G'', ''F'', ''A'', ''B'', ''O'']"

definition generateParentStar :: "rng \<Rightarrow> star \<times> rng" where
  "generateParentStar s =
     (let (r, s1) = random s;
          t = array_get starTypes \<lfloor>r * real (length starTypes)\<rfloor>;
          (age, s2) = generateStarAge t s1;
          ((sz, ms), s3) = generateStarSizeAndMass t age s2;
          luminosity = generateStarLuminosity t sz
      in (\<lparr>star_type = t, star_age = age, star_size = sz, star_mass = ms,
           star_luminosity = luminosity, star_habitableZone = None\<rparr>, s3))"

subsection \<open>Planets\<close>

definition isInHabitableZone :: "real \<Rightarrow> habitableZone \<Rightarrow> bool" where
  "isInHabitableZone orbitRadius hz =
     (orbitRadius \<ge> hz_innerBoundary hz \<and> orbitRadius \<le> hz_outerBoundary hz)"

text \<open>\<open>getRandomOrbitRadius\<close> also computes \<open>innerHabitable\<close>, which it does not
  use.\<close>

definition getRandomOrbitRadius :: "star \<Rightarrow> nat \<Rightarrow> int \<Rightarrow> real" where
  "getRandomOrbitRadius parentStar planetIndex totalPlanets =
     (let luminosity = star_luminosity parentStar;
          outerHabitable = sqrt (luminosity / 0.53);
          minOrbit = 0.2;
          maxOrbit = max 50 (outerHabitable + 20);
          spacingFactor = (ln maxOrbit - ln minOrbit) / real_of_int totalPlanets
      in exp (ln minOrbit + spacingFactor * real planetIndex))"

text \<open>The table of \<open>getAxialTilt\<close>, with the keys as the source spells them. A key
  that is missing gives \<open>undefined\<close>, and \<open>||\<close> then takes the Terrestrial entry, which
  the table has. (Names that every JavaScript object inherits, such as \<open>constructor\<close>, are
  not planet types and are not modelled.)\<close>

definition tiltRanges :: "string \<rightharpoonup> real \<times> real" where
  "tiltRanges = map_of
     [(''Dwarf'', (0, 30)),
      (''Terrestrial'', (0, 25)),
      (''Ocean'', (10, 30)),
      (''Lava'', (0, 40)),
      (''Gas Giant'', (15, 90)),
      (''Ice Giant'', (10, 90))]"

definition getAxialTilt :: "string \<Rightarrow> rng \<Rightarrow> real \<times> rng" where
  "getAxialTilt planetType s =
     (let (mn, mx) = (case tiltRanges planetType of
                        Some entry \<Rightarrow> entry
                      | None \<Rightarrow> the (tiltRanges ''Terrestrial''));
          (u, s1) = mathRandom s
      in (u * (mx - mn) + mn, s1))"

definition determinePlanetType :: "star \<Rightarrow> real \<Rightarrow> rng \<Rightarrow> string \<times> rng" where
  "determinePlanetType parentStar orbitRadius s =
     (let luminosity = star_luminosity parentStar;
          innerHabitable = sqrt (luminosity / 1.1);
          outerHabitable = sqrt (luminosity / 0.53)
      in if orbitRadius < innerHabitable then (''Lava Planet'', s)
         else if orbitRadius \<ge> innerHabitable \<and> orbitRadius \<le> outerHabitable
           then (let (u, s1) = mathRandom s
                 in (if u > 0.5 then ''Terrestrial'' else ''Ocean World'', s1))
         else if orbitRadius > outerHabitable \<and> orbitRadius < outerHabitable + 15
           then (''Gas Giant'', s)
         else if orbitRadius \<ge> outerHabitable + 5 \<and> orbitRadius < 30
           then (''Ice Giant'', s)
         else (''Dwarf Planet'', s))"

text \<open>The call in \<open>generateSolarSystem\<close> passes a third argument,
  \<open>habitableZonePlanetAdded\<close>, to this function of two parameters: JavaScript binds the
  first two and drops the rest.\<close>

definition determinePlanetType_call3 :: "star \<Rightarrow> real \<Rightarrow> bool \<Rightarrow> rng \<Rightarrow> string \<times> rng" where
  "determinePlanetType_call3 parentStar orbitRadius habitableZonePlanetAdded s =
     determinePlanetType parentStar orbitRadius s"

definition getPlanetSize :: "string \<Rightarrow> rng \<Rightarrow> real \<times> rng" where
  "getPlanetSize planetType s =
     (if planetType = ''Lava Planet'' then getRandomValue 0.3 1 s
      else if planetType = ''Terrestrial'' then getRandomValue 0.5 1.5 s
      else if planetType = ''Ocean World'' then getRandomValue 0.8 2 s
      else if planetType = ''Gas Giant'' then getRandomValue 6 15 s
      else if planetType = ''Ice Giant'' then getRandomValue 5 14 s
      else if planetType = ''Dwarf Planet'' then getRandomValue 0.1 0.3 s
      else (1, s))"

definition getPlanetMoons :: "string \<Rightarrow> rng \<Rightarrow> int \<times> rng" where
  "getPlanetMoons planetType s =
     (if planetType = ''Terrestrial'' then getRandomInt 0 3 s
      else if planetType = ''Ocean World'' then getRandomInt 0 2 s
      else if planetType = ''Gas Giant'' then getRandomInt 1 80 s
      else if planetType = ''Ice Giant'' then getRandomInt 1 50 s
      else if planetType = ''Lava Planet'' then getRandomInt 0 2 s
      else if planetType = ''Dwarf Planet'' then getRandomInt 0 5 s
      else (0, s))"

text \<open>The pools of the object \<open>atmospheres\<close> in \<open>getPlanetAtmosphere\<close>, one constant
  for each key (every lookup in the source has a literal key).\<close>

definition atmospheres_trace :: "string list" where
  "atmospheres_trace = [''trace'']"

definition atmospheres_carbon_dioxide :: "string list" where
  "atmospheres_carbon_dioxide = [''carbon_dioxide_type_I'', ''carbon_dioxide_type_II'']"

definition atmospheres_hydrogen_helium :: "string list" where
  "atmospheres_hydrogen_helium =
     [''hydrogen_helium_type_I'', ''hydrogen_helium_type_II'', ''hydrogen_helium_type_III'']"

definition atmospheres_ice :: "string list" where
  "atmospheres_ice = [''ice_type_I'', ''ice_type_II'']"

definition atmospheres_nitrogen :: "string list" where
  "atmospheres_nitrogen = [''nitrogen_type_I'', ''nitrogen_type_II'', ''nitrogen_type_III'']"

definition atmospheres_carbon :: "string list" where
  "atmospheres_carbon = [''carbon_type_I'']"

definition atmospheres_ammonia :: "string list" where
  "atmospheres_ammonia = [''ammonia_type_I'']"

definition randomAtmosphere :: "string list \<Rightarrow> rng \<Rightarrow> string option \<times> rng" where
  "randomAtmosphere types s =
     (let (u, s1) = mathRandom s in (array_get types \<lfloor>u * real (length types)\<rfloor>, s1))"

text \<open>Only the Terrestrial case reads the zone, and throws when it is \<open>undefined\<close>.\<close>

definition getPlanetAtmosphere ::
  "string \<Rightarrow> real \<Rightarrow> habitableZone option \<Rightarrow> rng \<Rightarrow> error + (string option \<times> rng)" where
  "getPlanetAtmosphere planetType orbitRadius habitableZone s =
     (if planetType = ''Terrestrial'' then
        (case habitableZone of
           None \<Rightarrow> Inl TypeError
         | Some hz \<Rightarrow>
             if isInHabitableZone orbitRadius hz
             then Inr (randomAtmosphere (atmospheres_carbon_dioxide @ atmospheres_nitrogen) s)
             else Inr (randomAtmosphere atmospheres_carbon_dioxide s))
      else if planetType = ''Ocean World'' then
        Inr (randomAtmosphere
               (atmospheres_carbon @ atmospheres_ammonia @ atmospheres_nitrogen) s)
      else if planetType = ''Gas Giant'' then
        Inr (randomAtmosphere (atmospheres_hydrogen_helium @ [atmospheres_carbon ! 0]) s)
      else if planetType = ''Ice Giant'' then
        Inr (randomAtmosphere (atmospheres_ice @ [atmospheres_ammonia ! 0]) s)
      else if planetType = ''Lava Planet'' then
        Inr (randomAtmosphere atmospheres_carbon_dioxide s)
      else if planetType = ''Dwarf Planet'' then
        Inr (randomAtmosphere (atmospheres_trace @ atmospheres_carbon_dioxide) s)
      else Inr (Some ''unknown'', s))"

subsection \<open>The solar system\<close>

text \<open>One pass through the body of the loop of \<open>generateSolarSystem\<close>: the planet
  pushed, the new value of \<open>habitableZonePlanetAdded\<close> and the state. The test of
  \<open>isInHabitableZone\<close> reads the star's zone and throws when the star has none.\<close>

definition solarSystem_iteration ::
  "star \<Rightarrow> nat \<Rightarrow> int \<Rightarrow> bool \<Rightarrow> rng \<Rightarrow> error + (planet \<times> bool \<times> rng)" where
  "solarSystem_iteration parentStar i numberOfPlanets habitableZonePlanetAdded s =
     (let orbitRadius = getRandomOrbitRadius parentStar i numberOfPlanets;
          (planetType, s1) =
             determinePlanetType_call3 parentStar orbitRadius habitableZonePlanetAdded s;
          (planetSize, s2) = getPlanetSize planetType s1
      in case getPlanetAtmosphere planetType orbitRadius (star_habitableZone parentStar) s2 of
           Inl e \<Rightarrow> Inl e
         | Inr (planetAtmosphere, s3) \<Rightarrow>
             (let (planetMoons, s4) = getPlanetMoons planetType s3;
                  (axialTilt, s5) = getAxialTilt planetType s4
              in case star_habitableZone parentStar of
                   None \<Rightarrow> Inl TypeError
                 | Some hz \<Rightarrow>
                     Inr (\<lparr>planet_type = planetType, planet_orbitRadius = orbitRadius,
                           planet_size = planetSize, planet_radius = planetSize,
                           planet_atmosphere = planetAtmosphere, planet_moons = planetMoons,
                           planet_axialTilt = axialTilt\<rparr>,
                          (if isInHabitableZone orbitRadius hz then True
                           else habitableZonePlanetAdded),
                          s5)))"

text \<open>The loop \<open>for (let i = 0; i < numberOfPlanets; i++)\<close>, from index \<open>i\<close> on.\<close>

function solarSystem_loop ::
  "star \<Rightarrow> int \<Rightarrow> nat \<Rightarrow> planet list \<Rightarrow> bool \<Rightarrow> rng \<Rightarrow> error + (planet list \<times> bool \<times> rng)" where
  "solarSystem_loop parentStar numberOfPlanets i solarSystemPlanets habitableZonePlanetAdded s =
     (if int i < numberOfPlanets then
        (case solarSystem_iteration parentStar i numberOfPlanets habitableZonePlanetAdded s of
           Inl e \<Rightarrow> Inl e
         | Inr (p, added, s1) \<Rightarrow>
             solarSystem_loop parentStar numberOfPlanets (Suc i) (solarSystemPlanets @ [p])
               added s1)
      else Inr (solarSystemPlanets, habitableZonePlanetAdded, s))"
  by pat_completeness auto
termination
  by (relation "measure (\<lambda>(parentStar, n, i, ps, added, s). nat (n - int i))") auto

text \<open>\<open>adjustForHabitableZonePlanet\<close> mutates one planet of the array in place; the
  model returns the new array. It throws when the zone is \<open>undefined\<close> and when the
  array has no element at the index drawn.\<close>

definition adjustForHabitableZonePlanet ::
  "planet list \<Rightarrow> habitableZone option \<Rightarrow> rng \<Rightarrow> error + (planet list \<times> rng)" where
  "adjustForHabitableZonePlanet planets habitableZone s =
     (case habitableZone of
        None \<Rightarrow> Inl TypeError
      | Some hz \<Rightarrow>
          (let habitableZonePlanetExists =
                 list_ex (\<lambda>p. isInHabitableZone (planet_orbitRadius p) hz) planets
           in if \<not> habitableZonePlanetExists then
                (let (r, s1) = random s;
                     idx = \<lfloor>r * real (length planets)\<rfloor>
                 in case array_get planets idx of
                      None \<Rightarrow> Inl TypeError
                    | Some planetToAdjust \<Rightarrow>
                        Inr (planets[nat idx := planetToAdjust
                               \<lparr>planet_orbitRadius :=
                                  (hz_innerBoundary hz + hz_outerBoundary hz) / 2\<rparr>], s1))
              else Inr (planets, s)))"

text \<open>\<open>Array.prototype.sort\<close> with the comparator \<open>a.orbitRadius - b.orbitRadius\<close> is a
  stable sort by the key \<open>orbitRadius\<close>.\<close>

definition generateSolarSystem :: "star \<Rightarrow> rng \<Rightarrow> error + (planet list \<times> rng)" where
  "generateSolarSystem parentStar s =
     (let (numberOfPlanets, s1) = getRandomInt 3 18 s
      in case solarSystem_loop parentStar numberOfPlanets 0 [] False s1 of
           Inl e \<Rightarrow> Inl e
         | Inr (solarSystemPlanets, habitableZonePlanetAdded, s2) \<Rightarrow>
             (case (if \<not> habitableZonePlanetAdded
                    then adjustForHabitableZonePlanet solarSystemPlanets
                           (star_habitableZone parentStar) s2
                    else Inr (solarSystemPlanets, s2)) of
                Inl e \<Rightarrow> Inl e
              | Inr (adjusted, s3) \<Rightarrow> Inr (sort_key planet_orbitRadius adjusted, s3)))"

text \<open>\<open>generateOrbit(seed)\<close>; \<open>None\<close> is the call without a seed, which goes on from the
  state the module is in.\<close>

definition generateOrbit :: "int option \<Rightarrow> rng \<Rightarrow> error + (orbit \<times> rng)" where
  "generateOrbit seed s =
     (let s0 = (case seed of None \<Rightarrow> s | Some v \<Rightarrow> set_random_seed v s);
          (star0, s1) = generateParentStar s0;
          luminosity = generateStarLuminosity (star_type star0) (star_size star0);
          parentStar = star0\<lparr>star_habitableZone := Some (calculateHabitableZone luminosity)\<rparr>
      in case generateSolarSystem parentStar s1 of
           Inl e \<Rightarrow> Inl e
         | Inr (solarSystem, s2) \<Rightarrow>
             Inr (\<lparr>orbit_parentStar = parentStar, orbit_solarSystem = solarSystem,
                   orbit_habitableZone = star_habitableZone parentStar\<rparr>, s2))"

subsection \<open>Vocabulary of the statements\<close>

text \<open>The two boundaries that \<open>determinePlanetType\<close> and \<open>getRandomOrbitRadius\<close>
  compute from the star's luminosity, under the names of their local variables.\<close>

definition innerHabitable :: "star \<Rightarrow> real" where
  "innerHabitable parentStar = sqrt (star_luminosity parentStar / 1.1)"

definition outerHabitable :: "star \<Rightarrow> real" where
  "outerHabitable parentStar = sqrt (star_luminosity parentStar / 0.53)"

text \<open>An engine whose \<open>Math.random\<close> returns the same value at every call, and a state
  of the two sources built on it.\<close>

definition constant_draws :: "real \<Rightarrow> nat \<Rightarrow> real" where
  "constant_draws c n = c"

definition engine :: "real \<Rightarrow> rng" where
  "engine c = \<lparr>seeded = 0, unseeded = constant_draws c\<rparr>"

text \<open>A star of luminosity 1 with its zone, for the concrete instances.\<close>

definition unit_star :: star where
  "unit_star = \<lparr>star_type = Some ''G'', star_age = 5, star_size = 1, star_mass = 1,
                 star_luminosity = 1, star_habitableZone = Some (calculateHabitableZone 1)\<rparr>"

text \<open>A planet beyond the zone of \<open>unit_star\<close>.\<close>

definition far_planet :: planet where
  "far_planet = \<lparr>planet_type = ''Gas Giant'', planet_orbitRadius = 3, planet_size = 8,
                  planet_radius = 8, planet_atmosphere = Some ''hydrogen_helium_type_I'',
                  planet_moons = 4, planet_axialTilt = 20\<rparr>"

text \<open>The state \<open>generateOrbit\<close> starts from, and the star it hands to
  \<open>generateSolarSystem\<close>: the parent star with its zone attached.\<close>

definition start_state :: "int option \<Rightarrow> rng \<Rightarrow> rng" where
  "start_state seed s = (case seed of None \<Rightarrow> s | Some v \<Rightarrow> set_random_seed v s)"

definition orbit_star :: "int option \<Rightarrow> rng \<Rightarrow> star" where
  "orbit_star seed s =
     (let star0 = fst (generateParentStar (start_state seed s))
      in star0\<lparr>star_habitableZone :=
           Some (calculateHabitableZone
                   (generateStarLuminosity (star_type star0) (star_size star0)))\<rparr>)"

text \<open>The tilts \<open>getAxialTilt\<close> can return for a draw \<open>c\<close>, over the six rows of its
  table.\<close>

definition tilts_of_draw :: "real \<Rightarrow> real set" where
  "tilts_of_draw c = {c * 30, c * 20 + 10, c * 40, c * 75 + 15, c * 80 + 10, c * 25}"

section \<open>Properties\<close>

subsection \<open>The random sources\<close>

lemma random_value:
  "fst (random s) = real (unat (snd (splitmix32 (seeded s)))) / 4294967296"
  by (simp add: random_def split_def Let_def)

lemma random_range: "0 \<le> fst (random s) \<and> fst (random s) < 1"
proof -
  define n where "n = unat (snd (splitmix32 (seeded s)))"
  have "n < (4294967296::nat)"
    unfolding n_def using unsigned_less [of "snd (splitmix32 (seeded s))", where ?'a = nat]
    by simp
  then have "real n < 4294967296" by linarith
  then have "0 \<le> real n / 4294967296 \<and> real n / 4294967296 < 1" by simp
  then show ?thesis unfolding random_value n_def .
qed

lemma random_unseeded [simp]: "unseeded (snd (random s)) = unseeded s"
  by (simp add: random_def split_def Let_def)

lemma floor_draw_range:
  assumes "0 \<le> r" "r < 1" "0 < n"
  shows "0 \<le> \<lfloor>r * real n\<rfloor> \<and> \<lfloor>r * real n\<rfloor> < int n"
proof -
  have "0 \<le> r * real n" using assms by simp
  moreover have "r * real n < real n" using assms by simp
  ultimately show ?thesis by (simp add: floor_less_iff)
qed

lemma getRandomInt_range:
  assumes "mn \<le> mx"
  shows "mn \<le> fst (getRandomInt mn mx s) \<and> fst (getRandomInt mn mx s) \<le> mx"
proof -
  have "0 < nat (mx - mn + 1)" using assms by simp
  from floor_draw_range [OF random_range [THEN conjunct1] random_range [THEN conjunct2] this, of s]
  have "0 \<le> \<lfloor>fst (random s) * real_of_int (mx - mn + 1)\<rfloor>
      \<and> \<lfloor>fst (random s) * real_of_int (mx - mn + 1)\<rfloor> < mx - mn + 1"
    using assms by simp
  then show ?thesis by (simp add: getRandomInt_def split_def Let_def)
qed

subsection \<open>The habitable zone\<close>

lemma sqrt_zone_strict: "0 < L \<Longrightarrow> sqrt (L / 1.1) < sqrt (L / 0.53)"
  by (simp add: field_simps)

lemma sqrt_zone_le: "0 \<le> L \<Longrightarrow> sqrt (L / 1.1) \<le> sqrt (L / 0.53)"
  by (simp add: field_simps)

lemma calculateHabitableZone_boundaries:
  "calculateHabitableZone (star_luminosity parentStar) =
     \<lparr>hz_innerBoundary = innerHabitable parentStar, hz_outerBoundary = outerHabitable parentStar\<rparr>"
  by (simp add: calculateHabitableZone_def innerHabitable_def outerHabitable_def)

lemma unit_star_bounds:
  "1/2 < innerHabitable unit_star" "innerHabitable unit_star < 1"
  "1 < outerHabitable unit_star" "outerHabitable unit_star < 2"
  "innerHabitable unit_star < outerHabitable unit_star"
proof -
  show "1/2 < innerHabitable unit_star"
    unfolding innerHabitable_def unit_star_def
    by (rule real_less_rsqrt) (simp add: power2_eq_square)
  show i1: "innerHabitable unit_star < 1" by (simp add: innerHabitable_def unit_star_def)
  show o1: "1 < outerHabitable unit_star" by (simp add: outerHabitable_def unit_star_def)
  show "outerHabitable unit_star < 2"
    unfolding outerHabitable_def unit_star_def
    by (rule real_less_lsqrt) (simp_all add: power2_eq_square)
  show "innerHabitable unit_star < outerHabitable unit_star"
    using i1 o1 by linarith
qed

text \<open>
  Claim C5. For every luminosity \<open>L > 0\<close> the habitable-zone calculator returns exactly
  the record with inner boundary \<open>sqrt (L / 1.1)\<close> and outer boundary \<open>sqrt (L / 0.53)\<close>,
  and \<open>0 < inner < outer\<close>. The function takes no state and returns none: it has no
  side effect and draws nothing.
\<close>

theorem calculateHabitableZone_correct:
  "0 < L \<Longrightarrow>
     calculateHabitableZone L =
       \<lparr>hz_innerBoundary = sqrt (L / 1.1), hz_outerBoundary = sqrt (L / 0.53)\<rparr>
     \<and> 0 < hz_innerBoundary (calculateHabitableZone L)
     \<and> hz_innerBoundary (calculateHabitableZone L) < hz_outerBoundary (calculateHabitableZone L)"
  using sqrt_zone_strict [of L] by (simp add: calculateHabitableZone_def)

theorem calculateHabitableZone_correct_witness:
  "(0::real) < 1
     \<and> calculateHabitableZone 1 =
         \<lparr>hz_innerBoundary = sqrt (1 / 1.1), hz_outerBoundary = sqrt (1 / 0.53)\<rparr>
     \<and> 0 < hz_innerBoundary (calculateHabitableZone 1)
     \<and> hz_innerBoundary (calculateHabitableZone 1) < hz_outerBoundary (calculateHabitableZone 1)"
  using calculateHabitableZone_correct [of 1] by simp

subsection \<open>The classifier\<close>

lemma determinePlanetType_type:
  "fst (determinePlanetType parentStar r s) =
     (if r < innerHabitable parentStar then ''Lava Planet''
      else if r \<le> outerHabitable parentStar
        then (if unseeded s 0 > 0.5 then ''Terrestrial'' else ''Ocean World'')
      else if r < outerHabitable parentStar + 15 then ''Gas Giant''
      else if r < 30 then ''Ice Giant''
      else ''Dwarf Planet'')"
  unfolding determinePlanetType_def innerHabitable_def outerHabitable_def Let_def mathRandom_def
  by (simp add: not_less)

text \<open>
  Claim C3. \<open>determinePlanetType\<close> follows the ordered branches: with the boundaries
  \<open>inner < outer\<close> computed from the star's luminosity, \<open>r < inner\<close> gives Lava Planet;
  \<open>inner \<le> r \<le> outer\<close> gives Terrestrial or Ocean World; \<open>outer < r < outer + 15\<close>
  gives Gas Giant; \<open>outer + 5 \<le> r < 30\<close> outside the Gas Giant band gives Ice Giant;
  everything else gives Dwarf Planet; and in the overlap \<open>outer + 5 \<le> r < outer + 15\<close>
  the first matching branch wins: Gas Giant.
\<close>

theorem determinePlanetType_branches:
  assumes "innerHabitable parentStar < outerHabitable parentStar"
  shows "(r < innerHabitable parentStar \<longrightarrow>
            fst (determinePlanetType parentStar r s) = ''Lava Planet'')
       \<and> (innerHabitable parentStar \<le> r \<and> r \<le> outerHabitable parentStar \<longrightarrow>
            fst (determinePlanetType parentStar r s) = ''Terrestrial''
            \<or> fst (determinePlanetType parentStar r s) = ''Ocean World'')
       \<and> (outerHabitable parentStar < r \<and> r < outerHabitable parentStar + 15 \<longrightarrow>
            fst (determinePlanetType parentStar r s) = ''Gas Giant'')
       \<and> (outerHabitable parentStar + 5 \<le> r \<and> r < 30
            \<and> \<not> (outerHabitable parentStar < r \<and> r < outerHabitable parentStar + 15) \<longrightarrow>
            fst (determinePlanetType parentStar r s) = ''Ice Giant'')
       \<and> (\<not> r < innerHabitable parentStar
            \<and> \<not> (innerHabitable parentStar \<le> r \<and> r \<le> outerHabitable parentStar)
            \<and> \<not> (outerHabitable parentStar < r \<and> r < outerHabitable parentStar + 15)
            \<and> \<not> (outerHabitable parentStar + 5 \<le> r \<and> r < 30) \<longrightarrow>
            fst (determinePlanetType parentStar r s) = ''Dwarf Planet'')
       \<and> (outerHabitable parentStar + 5 \<le> r \<and> r < outerHabitable parentStar + 15 \<longrightarrow>
            fst (determinePlanetType parentStar r s) = ''Gas Giant'')"
  using assms unfolding determinePlanetType_type by auto

theorem determinePlanetType_branches_witness:
  "innerHabitable unit_star < outerHabitable unit_star
   \<and> fst (determinePlanetType unit_star (1/2) (engine 0)) = ''Lava Planet''
   \<and> (fst (determinePlanetType unit_star 1 (engine 0)) = ''Terrestrial''
      \<or> fst (determinePlanetType unit_star 1 (engine 0)) = ''Ocean World'')
   \<and> fst (determinePlanetType unit_star 3 (engine 0)) = ''Gas Giant''
   \<and> fst (determinePlanetType unit_star 20 (engine 0)) = ''Ice Giant''
   \<and> fst (determinePlanetType unit_star 40 (engine 0)) = ''Dwarf Planet''
   \<and> fst (determinePlanetType unit_star 8 (engine 0)) = ''Gas Giant''"
proof -
  note b = unit_star_bounds
  note w = determinePlanetType_branches [OF b(5), of _ "engine 0"]
  have "fst (determinePlanetType unit_star (1/2) (engine 0)) = ''Lava Planet''"
    using w [of "1/2"] b by simp
  moreover have "fst (determinePlanetType unit_star 1 (engine 0)) = ''Terrestrial''
      \<or> fst (determinePlanetType unit_star 1 (engine 0)) = ''Ocean World''"
    using w [of 1] b by simp
  moreover have "fst (determinePlanetType unit_star 3 (engine 0)) = ''Gas Giant''"
    using w [of 3] b by simp
  moreover have "fst (determinePlanetType unit_star 20 (engine 0)) = ''Ice Giant''"
    using w [of 20] b by simp
  moreover have "fst (determinePlanetType unit_star 40 (engine 0)) = ''Dwarf Planet''"
    using w [of 40] b by simp
  moreover have "fst (determinePlanetType unit_star 8 (engine 0)) = ''Gas Giant''"
    using w [of 8] b by simp
  ultimately show ?thesis using b(5) by simp
qed

text \<open>
  Claim C4, as stated, fails: inside the habitable band the type is decided by a call of
  \<open>Math.random\<close>, so two calls with the same star and the same orbit radius can return
  different types.
\<close>

theorem determinePlanetType_not_pure_counterexample:
  "fst (determinePlanetType unit_star 1 (engine (3/4))) = ''Terrestrial''
   \<and> fst (determinePlanetType unit_star 1 (engine (1/4))) = ''Ocean World''"
  using unit_star_bounds
  by (simp add: determinePlanetType_type engine_def constant_draws_def)

text \<open>
  Claim C4, amended. Two calls of \<open>determinePlanetType\<close> whose stars give the same
  habitable-zone boundaries and whose orbit radii are equal return the same type whenever
  the radius lies outside the habitable band, or the draws of the two calls fall on the same
  side of \<open>0.5\<close>; and inside the band the result is Terrestrial when the draw is above
  \<open>0.5\<close> and Ocean World otherwise. The type is a function of the boundaries, the orbit
  radius and the coin flip of the habitable band.
\<close>

theorem determinePlanetType_deterministic_amended:
  "(calculateHabitableZone (star_luminosity star1) = calculateHabitableZone (star_luminosity star2)
      \<and> (\<not> isInHabitableZone r (calculateHabitableZone (star_luminosity star1))
           \<or> (unseeded s1 0 > 0.5) = (unseeded s2 0 > 0.5))
      \<longrightarrow> fst (determinePlanetType star1 r s1) = fst (determinePlanetType star2 r s2))
   \<and> (isInHabitableZone r (calculateHabitableZone (star_luminosity star1))
      \<longrightarrow> fst (determinePlanetType star1 r s1)
            = (if unseeded s1 0 > 0.5 then ''Terrestrial'' else ''Ocean World''))"
proof -
  have same: "fst (determinePlanetType star1 r s1) = fst (determinePlanetType star2 r s2)"
    if z: "calculateHabitableZone (star_luminosity star1)
             = calculateHabitableZone (star_luminosity star2)"
      and d: "\<not> isInHabitableZone r (calculateHabitableZone (star_luminosity star1))
           \<or> (unseeded s1 0 > 0.5) = (unseeded s2 0 > 0.5)"
  proof -
    have "innerHabitable star1 = innerHabitable star2
        \<and> outerHabitable star1 = outerHabitable star2"
      using z by (simp add: calculateHabitableZone_boundaries)
    then show ?thesis
      using d
      by (auto simp: determinePlanetType_type isInHabitableZone_def
            calculateHabitableZone_boundaries)
  qed
  have band: "fst (determinePlanetType star1 r s1)
            = (if unseeded s1 0 > 0.5 then ''Terrestrial'' else ''Ocean World'')"
    if "isInHabitableZone r (calculateHabitableZone (star_luminosity star1))"
    using that
    by (simp add: determinePlanetType_type isInHabitableZone_def
          calculateHabitableZone_boundaries)
  show ?thesis using same band by blast
qed

theorem determinePlanetType_deterministic_amended_witness:
  "calculateHabitableZone (star_luminosity unit_star)
     = calculateHabitableZone (star_luminosity unit_star)
   \<and> \<not> isInHabitableZone 3 (calculateHabitableZone (star_luminosity unit_star))
   \<and> fst (determinePlanetType unit_star 3 (engine (3/4)))
       = fst (determinePlanetType unit_star 3 (engine (1/4)))
   \<and> isInHabitableZone 1 (calculateHabitableZone (star_luminosity unit_star))
   \<and> (unseeded (engine (3/4)) 0 > 0.5) = (unseeded (engine (9/10)) 0 > 0.5)
   \<and> fst (determinePlanetType unit_star 1 (engine (3/4)))
       = fst (determinePlanetType unit_star 1 (engine (9/10)))
   \<and> fst (determinePlanetType unit_star 1 (engine (3/4))) = ''Terrestrial''
   \<and> fst (determinePlanetType unit_star 1 (engine (1/4))) = ''Ocean World''"
proof -
  have out: "\<not> isInHabitableZone 3 (calculateHabitableZone (star_luminosity unit_star))"
    using unit_star_bounds by (simp add: isInHabitableZone_def calculateHabitableZone_boundaries)
  have inside: "isInHabitableZone 1 (calculateHabitableZone (star_luminosity unit_star))"
    using unit_star_bounds by (simp add: isInHabitableZone_def calculateHabitableZone_boundaries)
  have side: "(unseeded (engine (3/4)) 0 > 0.5) = (unseeded (engine (9/10)) 0 > 0.5)"
    by (simp add: engine_def constant_draws_def)
  have hi: "unseeded (engine (3/4)) 0 > 0.5" and lo: "\<not> unseeded (engine (1/4)) 0 > 0.5"
    by (simp_all add: engine_def constant_draws_def)
  have a: "fst (determinePlanetType unit_star 3 (engine (3/4)))
       = fst (determinePlanetType unit_star 3 (engine (1/4)))"
    using out
      determinePlanetType_deterministic_amended
        [of unit_star unit_star 3 "engine (3/4)" "engine (1/4)"]
    by blast
  have b: "fst (determinePlanetType unit_star 1 (engine (3/4)))
       = fst (determinePlanetType unit_star 1 (engine (9/10)))"
    using side
      determinePlanetType_deterministic_amended
        [of unit_star unit_star 1 "engine (3/4)" "engine (9/10)"]
    by blast
  have c: "fst (determinePlanetType unit_star 1 (engine (3/4))) = ''Terrestrial''"
    using inside hi
      determinePlanetType_deterministic_amended
        [of unit_star unit_star 1 "engine (3/4)" "engine (3/4)"]
    by simp
  have d: "fst (determinePlanetType unit_star 1 (engine (1/4))) = ''Ocean World''"
    using inside lo
      determinePlanetType_deterministic_amended
        [of unit_star unit_star 1 "engine (1/4)" "engine (1/4)"]
    by simp
  show ?thesis using out inside side a b c d by blast
qed

text \<open>
  Claim C10. The third argument that \<open>generateSolarSystem\<close> passes to
  \<open>determinePlanetType\<close> has no effect: the call returns the same type and state for
  both values of \<open>habitableZonePlanetAdded\<close>, the planet built by one pass of the loop
  and the state after it do not depend on the flag the pass starts with, and for stars of
  the same luminosity and the same orbit radius the branch taken is the same (the types
  are equal, or both come from the habitable band).
\<close>

theorem third_argument_ignored:
  "determinePlanetType_call3 parentStar r added1 s = determinePlanetType_call3 parentStar r added2 s
   \<and> map_sum id (\<lambda>(p, added, s'). (p, s')) (solarSystem_iteration parentStar i N added1 s)
     = map_sum id (\<lambda>(p, added, s'). (p, s')) (solarSystem_iteration parentStar i N added2 s)
   \<and> (star_luminosity star1 = star_luminosity star2 \<longrightarrow>
        fst (determinePlanetType_call3 star1 r added1 s1) = fst (determinePlanetType_call3 star2 r added2 s2)
        \<or> fst (determinePlanetType_call3 star1 r added1 s1) \<in> {''Terrestrial'', ''Ocean World''}
          \<and> fst (determinePlanetType_call3 star2 r added2 s2) \<in> {''Terrestrial'', ''Ocean World''})"
proof -
  have a: "determinePlanetType_call3 parentStar r added1 s = determinePlanetType_call3 parentStar r added2 s"
    by (simp add: determinePlanetType_call3_def)
  have b: "map_sum id (\<lambda>(p, added, s'). (p, s')) (solarSystem_iteration parentStar i N added1 s)
     = map_sum id (\<lambda>(p, added, s'). (p, s')) (solarSystem_iteration parentStar i N added2 s)"
    by (simp add: solarSystem_iteration_def determinePlanetType_call3_def Let_def
        split: prod.splits sum.splits option.splits)
  have c: "star_luminosity star1 = star_luminosity star2 \<longrightarrow>
        fst (determinePlanetType_call3 star1 r added1 s1) = fst (determinePlanetType_call3 star2 r added2 s2)
        \<or> fst (determinePlanetType_call3 star1 r added1 s1) \<in> {''Terrestrial'', ''Ocean World''}
          \<and> fst (determinePlanetType_call3 star2 r added2 s2) \<in> {''Terrestrial'', ''Ocean World''}"
    by (simp add: determinePlanetType_call3_def determinePlanetType_type innerHabitable_def outerHabitable_def)
  show ?thesis using a b c by blast
qed

theorem third_argument_ignored_witness:
  "star_luminosity unit_star = star_luminosity unit_star
   \<and> (fst (determinePlanetType_call3 unit_star 1 True (engine (3/4)))
        = fst (determinePlanetType_call3 unit_star 1 False (engine (1/4)))
      \<or> fst (determinePlanetType_call3 unit_star 1 True (engine (3/4)))
          \<in> {''Terrestrial'', ''Ocean World''}
        \<and> fst (determinePlanetType_call3 unit_star 1 False (engine (1/4)))
          \<in> {''Terrestrial'', ''Ocean World''})"
  using third_argument_ignored
          [of unit_star 1 True "engine 0" False 0 3 unit_star unit_star "engine (3/4)" "engine (1/4)"]
  by simp


subsection \<open>The orbit layout\<close>

lemma maxOrbit_gt: "ln (max 50 (x + 20)) - ln (0.2::real) > 0"
proof -
  have "(50::real) \<le> max 50 (x + 20)" by (rule max.cobounded1)
  then have "(0.2::real) < max 50 (x + 20)" by linarith
  then have "ln (0.2::real) < ln (max 50 (x + 20))" by (subst ln_less_cancel_iff) simp_all
  then show ?thesis by simp
qed

text \<open>
  Claim C7. For every star (of a luminosity that is not negative, where \<open>Math.sqrt\<close> is
  defined) and every planet count \<open>N \<ge> 1\<close>, the orbit radius of slot \<open>i\<close> is
  \<open>exp (ln 0.2 + i * (ln maxOrbit - ln 0.2) / N)\<close> with
  \<open>maxOrbit = max 50 (outerHabitable + 20)\<close>; it is strictly positive, strictly
  increasing in \<open>i\<close>, and a function of the star's luminosity, \<open>i\<close> and \<open>N\<close> alone:
  \<open>getRandomOrbitRadius\<close> takes no generator state, so it draws nothing.
\<close>

theorem getRandomOrbitRadius_spacing:
  assumes "0 \<le> star_luminosity parentStar" and "1 \<le> N"
  shows "getRandomOrbitRadius parentStar i N =
           exp (ln 0.2 + real i * (ln (max 50 (outerHabitable parentStar + 20)) - ln 0.2)
                           / real_of_int N)
       \<and> 0 < getRandomOrbitRadius parentStar i N
       \<and> (i < j \<longrightarrow> getRandomOrbitRadius parentStar i N < getRandomOrbitRadius parentStar j N)
       \<and> (star_luminosity otherStar = star_luminosity parentStar \<longrightarrow>
            getRandomOrbitRadius otherStar i N = getRandomOrbitRadius parentStar i N)"
proof -
  define d where "d = (ln (max 50 (outerHabitable parentStar + 20)) - ln 0.2) / real_of_int N"
  have d: "0 < d"
    unfolding d_def using maxOrbit_gt [of "outerHabitable parentStar"] assms(2) by simp
  have eq: "getRandomOrbitRadius st k N = exp (ln 0.2 + d * real k)"
    if "star_luminosity st = star_luminosity parentStar" for st k
    using that by (simp add: getRandomOrbitRadius_def outerHabitable_def Let_def d_def)
  have mono: "d * real i < d * real j" if "i < j"
    using d that by simp
  have formula: "getRandomOrbitRadius parentStar i N =
           exp (ln 0.2 + real i * (ln (max 50 (outerHabitable parentStar + 20)) - ln 0.2)
                           / real_of_int N)"
    by (simp add: getRandomOrbitRadius_def outerHabitable_def Let_def)
  have pos: "0 < getRandomOrbitRadius parentStar i N"
    by (simp add: eq)
  have incr: "i < j \<longrightarrow> getRandomOrbitRadius parentStar i N < getRandomOrbitRadius parentStar j N"
    using mono by (simp add: eq)
  have same: "star_luminosity otherStar = star_luminosity parentStar \<longrightarrow>
            getRandomOrbitRadius otherStar i N = getRandomOrbitRadius parentStar i N"
    by (simp add: eq)
  show ?thesis using formula pos incr same by blast
qed

theorem getRandomOrbitRadius_spacing_witness:
  "0 \<le> star_luminosity unit_star \<and> (1::int) \<le> 5
   \<and> getRandomOrbitRadius unit_star 0 5 =
         exp (ln 0.2 + real (0::nat) * (ln (max 50 (outerHabitable unit_star + 20)) - ln 0.2)
                          / real_of_int 5)
   \<and> 0 < getRandomOrbitRadius unit_star 0 5
   \<and> getRandomOrbitRadius unit_star 0 5 < getRandomOrbitRadius unit_star 1 5"
proof -
  have h1: "0 \<le> star_luminosity unit_star" by (simp add: unit_star_def)
  have h2: "(1::int) \<le> 5" by simp
  show ?thesis
    using h1 h2 getRandomOrbitRadius_spacing [OF h1 h2, of 0 1 unit_star] by simp
qed

subsection \<open>The axial tilt\<close>

lemma tiltRanges_simps:
  "tiltRanges ''Ocean World'' = None"
  "tiltRanges ''Lava Planet'' = None"
  "tiltRanges ''Dwarf Planet'' = None"
  "tiltRanges ''Terrestrial'' = Some (0, 25)"
  "tiltRanges ''Gas Giant'' = Some (15, 90)"
  "tiltRanges ''Ice Giant'' = Some (10, 90)"
  by (simp_all add: tiltRanges_def)

lemma getAxialTilt_value:
  "fst (getAxialTilt t s) =
     (if t = ''Dwarf'' then unseeded s 0 * 30
      else if t = ''Ocean'' then unseeded s 0 * 20 + 10
      else if t = ''Lava'' then unseeded s 0 * 40
      else if t = ''Gas Giant'' then unseeded s 0 * 75 + 15
      else if t = ''Ice Giant'' then unseeded s 0 * 80 + 10
      else unseeded s 0 * 25)"
  by (simp add: getAxialTilt_def tiltRanges_def mathRandom_def)

lemma getAxialTilt_state:
  "snd (getAxialTilt t s) = s\<lparr>unseeded := (\<lambda>n. unseeded s (Suc n))\<rparr>"
  by (simp add: getAxialTilt_def mathRandom_def split_def Let_def)

lemma getAxialTilt_ranges:
  assumes "0 \<le> unseeded s 0" and "unseeded s 0 < 1"
  shows "0 \<le> fst (getAxialTilt ''Terrestrial'' s) \<and> fst (getAxialTilt ''Terrestrial'' s) \<le> 25"
    and "15 \<le> fst (getAxialTilt ''Gas Giant'' s) \<and> fst (getAxialTilt ''Gas Giant'' s) \<le> 90"
    and "10 \<le> fst (getAxialTilt ''Ice Giant'' s) \<and> fst (getAxialTilt ''Ice Giant'' s) \<le> 90"
    and "0 \<le> fst (getAxialTilt ''Lava Planet'' s) \<and> fst (getAxialTilt ''Lava Planet'' s) \<le> 25"
    and "0 \<le> fst (getAxialTilt ''Dwarf Planet'' s) \<and> fst (getAxialTilt ''Dwarf Planet'' s) \<le> 25"
    and "0 \<le> fst (getAxialTilt ''Ocean World'' s) \<and> fst (getAxialTilt ''Ocean World'' s) \<le> 25"
  using assms by (simp_all add: getAxialTilt_value)

lemma getAxialTilt_fallback:
  assumes "tiltRanges t = None" and "0 \<le> unseeded s 0" and "unseeded s 0 < 1"
  shows "0 \<le> fst (getAxialTilt t s) \<and> fst (getAxialTilt t s) \<le> 25"
  using assms by (simp add: getAxialTilt_def tiltRanges_simps mathRandom_def)

text \<open>
  Claim C8 holds for Terrestrial, Gas Giant and Ice Giant planets, and for Lava and Dwarf
  planets, whose lookup misses the table and falls back to the narrower Terrestrial range.
  It fails for an Ocean World: the table is keyed \<open>Ocean\<close>, the lookup of \<open>Ocean World\<close>
  misses it and falls back to \<open>[0, 25]\<close>, so a draw of \<open>0\<close> gives the tilt \<open>0\<close>, below
  the range \<open>[10, 30]\<close> of the claim.
\<close>

theorem getAxialTilt_Ocean_World_out_of_range:
  "fst (getAxialTilt ''Ocean World'' (engine 0)) = 0
   \<and> \<not> (10 \<le> fst (getAxialTilt ''Ocean World'' (engine 0))
        \<and> fst (getAxialTilt ''Ocean World'' (engine 0)) \<le> 30)"
  by (simp add: getAxialTilt_def tiltRanges_simps mathRandom_def engine_def constant_draws_def)

subsection \<open>The loop of generateSolarSystem\<close>

lemma getPlanetAtmosphere_returns:
  "\<exists>a s'. getPlanetAtmosphere t r (Some hz) s = Inr (a, s')"
  by (simp add: getPlanetAtmosphere_def prod_eq_iff)

lemma solarSystem_iteration_returns:
  assumes "star_habitableZone parentStar = Some hz"
  shows "\<exists>p s'. solarSystem_iteration parentStar i N added s =
            Inr (p, isInHabitableZone (planet_orbitRadius p) hz \<or> added, s')
          \<and> planet_orbitRadius p = getRandomOrbitRadius parentStar i N"
proof -
  obtain t s1 where t: "determinePlanetType_call3 parentStar (getRandomOrbitRadius parentStar i N) added s = (t, s1)"
    by (cases "determinePlanetType_call3 parentStar (getRandomOrbitRadius parentStar i N) added s")
  obtain sz s2 where sz: "getPlanetSize t s1 = (sz, s2)" by (cases "getPlanetSize t s1")
  obtain a s3 where a: "getPlanetAtmosphere t (getRandomOrbitRadius parentStar i N) (Some hz) s2 = Inr (a, s3)"
    using getPlanetAtmosphere_returns by blast
  obtain m s4 where m: "getPlanetMoons t s3 = (m, s4)" by (cases "getPlanetMoons t s3")
  obtain x s5 where x: "getAxialTilt t s4 = (x, s5)" by (cases "getAxialTilt t s4")
  show ?thesis
    by (simp add: solarSystem_iteration_def Let_def assms t sz a m x)
qed

lemma solarSystem_loop_returns:
  assumes "star_habitableZone parentStar = Some hz"
  shows "\<exists>rest added' s'.
           solarSystem_loop parentStar N i acc added s = Inr (acc @ rest, added', s')
           \<and> map planet_orbitRadius rest = map (\<lambda>k. getRandomOrbitRadius parentStar k N) [i..<nat N]
           \<and> added' = (added \<or> list_ex (\<lambda>p. isInHabitableZone (planet_orbitRadius p) hz) rest)"
  using assms
proof (induction parentStar N i acc added s rule: solarSystem_loop.induct)
  case (1 parentStar N i acc added s)
  show ?case
  proof (cases "int i < N")
    case False
    then have "[i..<nat N] = []" by simp
    with False show ?thesis by simp
  next
    case True
    then have upt: "[i..<nat N] = i # [Suc i..<nat N]"
      by (simp add: upt_conv_Cons)
    obtain p s1 where it: "solarSystem_iteration parentStar i N added s =
            Inr (p, isInHabitableZone (planet_orbitRadius p) hz \<or> added, s1)"
      and rad: "planet_orbitRadius p = getRandomOrbitRadius parentStar i N"
      using solarSystem_iteration_returns [OF "1.prems"] by blast
    from "1.IH" [OF True it refl refl "1.prems"]
    obtain rest added' s' where r:
      "solarSystem_loop parentStar N (Suc i) (acc @ [p])
          (isInHabitableZone (planet_orbitRadius p) hz \<or> added) s1
         = Inr ((acc @ [p]) @ rest, added', s')"
      "map planet_orbitRadius rest = map (\<lambda>k. getRandomOrbitRadius parentStar k N) [Suc i..<nat N]"
      "added' = ((isInHabitableZone (planet_orbitRadius p) hz \<or> added)
          \<or> list_ex (\<lambda>p. isInHabitableZone (planet_orbitRadius p) hz) rest)"
      by blast
    have "solarSystem_loop parentStar N i acc added s = Inr (acc @ (p # rest), added', s')"
      using True it r(1) by simp
    moreover have "map planet_orbitRadius (p # rest)
        = map (\<lambda>k. getRandomOrbitRadius parentStar k N) [i..<nat N]"
      using rad r(2) upt by simp
    moreover have "added' = (added \<or> list_ex (\<lambda>p. isInHabitableZone (planet_orbitRadius p) hz) (p # rest))"
      using r(3) by auto
    ultimately show ?thesis by blast
  qed
qed

subsection \<open>The relocation\<close>

lemma array_get_in_range:
  assumes "0 \<le> i" "i < int (length xs)"
  shows "array_get xs i = Some (xs ! nat i) \<and> nat i < length xs"
  using assms by (simp add: array_get_def)

lemma adjust_unchanged:
  assumes "list_ex (\<lambda>p. isInHabitableZone (planet_orbitRadius p) hz) planets"
  shows "adjustForHabitableZonePlanet planets (Some hz) s = Inr (planets, s)"
  using assms by (simp add: adjustForHabitableZonePlanet_def)

lemma adjust_relocates:
  assumes "planets \<noteq> []"
    and "\<not> list_ex (\<lambda>p. isInHabitableZone (planet_orbitRadius p) hz) planets"
  shows "\<exists>k<length planets.
           adjustForHabitableZonePlanet planets (Some hz) s =
             Inr (planets[k := (planets ! k)
                    \<lparr>planet_orbitRadius := (hz_innerBoundary hz + hz_outerBoundary hz) / 2\<rparr>],
                  snd (random s))"
proof -
  define idx where "idx = \<lfloor>fst (random s) * real (length planets)\<rfloor>"
  have "0 < length planets" using assms(1) by simp
  then have "0 \<le> idx \<and> idx < int (length planets)"
    unfolding idx_def using floor_draw_range random_range by blast
  then have g: "array_get planets idx = Some (planets ! nat idx)" and k: "nat idx < length planets"
    using array_get_in_range by blast+
  have "adjustForHabitableZonePlanet planets (Some hz) s =
          Inr (planets[nat idx := (planets ! nat idx)
                 \<lparr>planet_orbitRadius := (hz_innerBoundary hz + hz_outerBoundary hz) / 2\<rparr>],
               snd (random s))"
    using assms(2) g
    by (simp add: adjustForHabitableZonePlanet_def Let_def split_def idx_def)
  with k show ?thesis by blast
qed

lemma midpoint_in_zone:
  assumes "hz_innerBoundary hz \<le> hz_outerBoundary hz"
  shows "isInHabitableZone ((hz_innerBoundary hz + hz_outerBoundary hz) / 2) hz"
  using assms by (simp add: isInHabitableZone_def)

lemma list_ex_update:
  assumes "k < length ps" "P q"
  shows "list_ex P (ps[k := q])"
  using assms by (auto simp: list_ex_iff set_update_memI)

text \<open>
  Claim C9. When no planet lies in the zone, the relocation changes only the
  \<open>orbitRadius\<close> of the one planet it picks, which becomes \<open>(inner + outer) / 2\<close>: the
  type, size, radius, atmosphere, moons and axial tilt of that planet are unchanged, and
  every other planet of the list is unchanged in all its fields.
\<close>

theorem relocation_frame:
  assumes "planets \<noteq> []"
    and "\<not> list_ex (\<lambda>p. isInHabitableZone (planet_orbitRadius p) hz) planets"
  shows "\<exists>k planets' s'.
           k < length planets
           \<and> adjustForHabitableZonePlanet planets (Some hz) s = Inr (planets', s')
           \<and> length planets' = length planets
           \<and> planet_orbitRadius (planets' ! k) = (hz_innerBoundary hz + hz_outerBoundary hz) / 2
           \<and> planet_type (planets' ! k) = planet_type (planets ! k)
           \<and> planet_size (planets' ! k) = planet_size (planets ! k)
           \<and> planet_radius (planets' ! k) = planet_radius (planets ! k)
           \<and> planet_atmosphere (planets' ! k) = planet_atmosphere (planets ! k)
           \<and> planet_moons (planets' ! k) = planet_moons (planets ! k)
           \<and> planet_axialTilt (planets' ! k) = planet_axialTilt (planets ! k)
           \<and> (\<forall>j<length planets. j \<noteq> k \<longrightarrow> planets' ! j = planets ! j)"
proof -
  from adjust_relocates [OF assms, of s] obtain k where k: "k < length planets"
    and r: "adjustForHabitableZonePlanet planets (Some hz) s =
             Inr (planets[k := (planets ! k)
                    \<lparr>planet_orbitRadius := (hz_innerBoundary hz + hz_outerBoundary hz) / 2\<rparr>],
                  snd (random s))"
    by blast
  show ?thesis
    apply (rule exI [of _ k])
    apply (rule exI [of _ "planets[k := (planets ! k)
                    \<lparr>planet_orbitRadius := (hz_innerBoundary hz + hz_outerBoundary hz) / 2\<rparr>]"])
    apply (rule exI [of _ "snd (random s)"])
    using k r by simp
qed

theorem relocation_frame_witness:
  "[far_planet] \<noteq> []
   \<and> \<not> list_ex (\<lambda>p. isInHabitableZone (planet_orbitRadius p)
                  (calculateHabitableZone (star_luminosity unit_star))) [far_planet]
   \<and> (\<exists>planets' s'.
         adjustForHabitableZonePlanet [far_planet]
             (Some (calculateHabitableZone (star_luminosity unit_star))) (engine 0)
           = Inr (planets', s')
         \<and> length planets' = 1
         \<and> planet_orbitRadius (planets' ! 0) =
             (innerHabitable unit_star + outerHabitable unit_star) / 2
         \<and> planet_type (planets' ! 0) = ''Gas Giant''
         \<and> planet_axialTilt (planets' ! 0) = 20)"
proof -
  have h1: "[far_planet] \<noteq> []" by simp
  have h2: "\<not> list_ex (\<lambda>p. isInHabitableZone (planet_orbitRadius p)
                  (calculateHabitableZone (star_luminosity unit_star))) [far_planet]"
    using unit_star_bounds
    by (simp add: isInHabitableZone_def calculateHabitableZone_boundaries far_planet_def)
  show ?thesis
    using h1 h2 relocation_frame [OF h1 h2, of "engine 0"]
    by (auto simp: calculateHabitableZone_boundaries far_planet_def)
qed

subsection \<open>The parent star\<close>

lemma getRandomValue_lower: "mn \<le> mx \<Longrightarrow> mn \<le> fst (getRandomValue mn mx s)"
  using random_range [of s] by (simp add: getRandomValue_def split_def Let_def)

lemma getRandomValue_unseeded [simp]: "unseeded (snd (getRandomValue mn mx s)) = unseeded s"
  by (simp add: getRandomValue_def split_def Let_def)

lemma getRandomAge_unseeded [simp]: "unseeded (snd (getRandomAge mn mx s)) = unseeded s"
  by (simp add: getRandomAge_def split_def Let_def)

lemma getRandomInt_unseeded [simp]: "unseeded (snd (getRandomInt mn mx s)) = unseeded s"
  by (simp add: getRandomInt_def split_def Let_def)

lemma star_size_positive:
  assumes "t \<in> set starTypes"
  shows "0 < fst (fst (generateStarSizeAndMass (Some t) age s))"
proof -
  have "0 < fst (fst (draw_size_mass a b c d s))" if "0 < a" "a \<le> b" for a b c d
    using getRandomValue_lower [OF that(2), of s] that(1)
    by (simp add: draw_size_mass_def split_def Let_def)
  then show ?thesis
    using assms by (auto simp: generateStarSizeAndMass_def starTypes_def)
qed

lemma generateStarLuminosity_positive:
  assumes "t \<in> set starTypes" "0 < sz"
  shows "0 < generateStarLuminosity (Some t) sz"
  using assms by (auto simp: generateStarLuminosity_def starTypes_def)

lemma generateParentStar_type:
  "\<exists>t \<in> set starTypes. star_type (fst (generateParentStar s)) = Some t"
proof -
  define idx where "idx = \<lfloor>fst (random s) * real (length starTypes)\<rfloor>"
  have "0 < length starTypes" by (simp add: starTypes_def)
  then have "0 \<le> idx \<and> idx < int (length starTypes)"
    unfolding idx_def using floor_draw_range random_range by blast
  then have "array_get starTypes idx = Some (starTypes ! nat idx)" "nat idx < length starTypes"
    using array_get_in_range by blast+
  then have "\<exists>t \<in> set starTypes. array_get starTypes idx = Some t"
    by simp
  then show ?thesis
    by (simp add: generateParentStar_def split_def Let_def idx_def)
qed

lemma generateParentStar_luminosity:
  "star_luminosity (fst (generateParentStar s)) =
     generateStarLuminosity (star_type (fst (generateParentStar s)))
       (star_size (fst (generateParentStar s)))
   \<and> 0 < star_luminosity (fst (generateParentStar s))"
proof -
  obtain t where t: "t \<in> set starTypes" "star_type (fst (generateParentStar s)) = Some t"
    using generateParentStar_type by blast
  have eq: "star_luminosity (fst (generateParentStar s)) =
     generateStarLuminosity (star_type (fst (generateParentStar s)))
       (star_size (fst (generateParentStar s)))"
    by (simp add: generateParentStar_def split_def Let_def)
  have "\<exists>age s'. star_size (fst (generateParentStar s)) = fst (fst (generateStarSizeAndMass (star_type (fst (generateParentStar s))) age s'))"
    by (simp add: generateParentStar_def split_def Let_def) blast
  then have "0 < star_size (fst (generateParentStar s))"
    using star_size_positive [OF t(1)] t(2) by auto
  then show ?thesis using eq t generateStarLuminosity_positive by simp
qed

lemma generateParentStar_unseeded [simp]:
  "unseeded (snd (generateParentStar s)) = unseeded s"
  by (simp add: generateParentStar_def split_def Let_def generateStarAge_def
      generateStarSizeAndMass_def draw_size_mass_def)

subsection \<open>Generated systems\<close>

lemma generateSolarSystem_shape:
  assumes "star_habitableZone parentStar = Some hz"
  shows "\<exists>ps added s2 s3.
           solarSystem_loop parentStar (fst (getRandomInt 3 18 s)) 0 [] False
               (snd (getRandomInt 3 18 s)) = Inr (ps, added, s2)
           \<and> map planet_orbitRadius ps =
               map (\<lambda>k. getRandomOrbitRadius parentStar k (fst (getRandomInt 3 18 s)))
                 [0..<nat (fst (getRandomInt 3 18 s))]
           \<and> (generateSolarSystem parentStar s = Inr (sort_key planet_orbitRadius ps, s3)
                \<and> list_ex (\<lambda>p. isInHabitableZone (planet_orbitRadius p) hz) ps
              \<or> (\<exists>k<length ps.
                   generateSolarSystem parentStar s =
                     Inr (sort_key planet_orbitRadius
                            (ps[k := (ps ! k)\<lparr>planet_orbitRadius :=
                                  (hz_innerBoundary hz + hz_outerBoundary hz) / 2\<rparr>]), s3)))"
proof -
  define N where "N = fst (getRandomInt 3 18 s)"
  define s1 where "s1 = snd (getRandomInt 3 18 s)"
  have N: "3 \<le> N" "N \<le> 18" unfolding N_def using getRandomInt_range [of 3 18 s] by simp_all
  obtain ps added s2 where
    loop: "solarSystem_loop parentStar N 0 [] False s1 = Inr ([] @ ps, added, s2)"
    and radii: "map planet_orbitRadius ps = map (\<lambda>k. getRandomOrbitRadius parentStar k N) [0..<nat N]"
    and added: "added = (False \<or> list_ex (\<lambda>p. isInHabitableZone (planet_orbitRadius p) hz) ps)"
    using solarSystem_loop_returns [OF assms, of N 0 "[]" False s1] by blast
  have "length (map planet_orbitRadius ps) = nat N" unfolding radii by simp
  then have len: "length ps = nat N" by simp
  then have ne: "ps \<noteq> []" using N by auto
  have gen: "generateSolarSystem parentStar s =
      (case (if \<not> added then adjustForHabitableZonePlanet ps (Some hz) s2 else Inr (ps, s2)) of
         Inl e \<Rightarrow> Inl e
       | Inr (adjusted, s3) \<Rightarrow> Inr (sort_key planet_orbitRadius adjusted, s3))"
    using loop by (simp add: generateSolarSystem_def split_def Let_def N_def s1_def assms)
  show ?thesis
  proof (cases added)
    case True
    then have "generateSolarSystem parentStar s = Inr (sort_key planet_orbitRadius ps, s2)"
      using gen by simp
    then show ?thesis using loop radii added True unfolding N_def s1_def by auto
  next
    case False
    then have none: "\<not> list_ex (\<lambda>p. isInHabitableZone (planet_orbitRadius p) hz) ps"
      using added by simp
    from adjust_relocates [OF ne none, of s2] obtain k where k: "k < length ps"
      and adj: "adjustForHabitableZonePlanet ps (Some hz) s2 =
             Inr (ps[k := (ps ! k)
                    \<lparr>planet_orbitRadius := (hz_innerBoundary hz + hz_outerBoundary hz) / 2\<rparr>],
                  snd (random s2))"
      by blast
    have "generateSolarSystem parentStar s =
            Inr (sort_key planet_orbitRadius
                   (ps[k := (ps ! k)\<lparr>planet_orbitRadius :=
                        (hz_innerBoundary hz + hz_outerBoundary hz) / 2\<rparr>]), snd (random s2))"
      using gen False adj by simp
    then show ?thesis using loop radii k unfolding N_def s1_def by auto
  qed
qed

lemma generateOrbit_unfold:
  "generateOrbit seed s =
     (case generateSolarSystem (orbit_star seed s) (snd (generateParentStar (start_state seed s))) of
        Inl e \<Rightarrow> Inl e
      | Inr (solarSystem, s2) \<Rightarrow>
          Inr (\<lparr>orbit_parentStar = orbit_star seed s, orbit_solarSystem = solarSystem,
                orbit_habitableZone = star_habitableZone (orbit_star seed s)\<rparr>, s2))"
  unfolding generateOrbit_def orbit_star_def start_state_def split_def Let_def
  by (rule refl)

lemma orbit_star_zone:
  "star_habitableZone (orbit_star seed s) =
     Some (calculateHabitableZone (star_luminosity (orbit_star seed s)))
   \<and> 0 < star_luminosity (orbit_star seed s)"
  using generateParentStar_luminosity [of "start_state seed s"]
  by (simp add: orbit_star_def Let_def)

lemma calculateHabitableZone_ordered:
  "0 \<le> L \<Longrightarrow> hz_innerBoundary (calculateHabitableZone L) \<le> hz_outerBoundary (calculateHabitableZone L)"
  using sqrt_zone_le [of L] by (simp add: calculateHabitableZone_def)

lemma generateSolarSystem_summary:
  assumes "star_habitableZone parentStar = Some hz"
  shows "\<exists>ps s'. generateSolarSystem parentStar s = Inr (sort_key planet_orbitRadius ps, s')
           \<and> 3 \<le> length ps \<and> length ps \<le> 18
           \<and> (hz_innerBoundary hz \<le> hz_outerBoundary hz \<longrightarrow>
                list_ex (\<lambda>p. isInHabitableZone (planet_orbitRadius p) hz) ps)"
proof -
  define N where "N = fst (getRandomInt 3 18 s)"
  have N: "3 \<le> N" "N \<le> 18" unfolding N_def using getRandomInt_range [of 3 18 s] by simp_all
  from generateSolarSystem_shape [OF assms, of s] obtain ps added s2 s3 where
    radii: "map planet_orbitRadius ps = map (\<lambda>k. getRandomOrbitRadius parentStar k N) [0..<nat N]"
    and res: "generateSolarSystem parentStar s = Inr (sort_key planet_orbitRadius ps, s3)
                \<and> list_ex (\<lambda>p. isInHabitableZone (planet_orbitRadius p) hz) ps
              \<or> (\<exists>k<length ps.
                   generateSolarSystem parentStar s =
                     Inr (sort_key planet_orbitRadius
                            (ps[k := (ps ! k)\<lparr>planet_orbitRadius :=
                                  (hz_innerBoundary hz + hz_outerBoundary hz) / 2\<rparr>]), s3))"
    unfolding N_def by blast
  have "length (map planet_orbitRadius ps) = nat N" unfolding radii by simp
  then have "length ps = nat N" by simp
  then have len: "3 \<le> length ps \<and> length ps \<le> 18" using N by linarith
  from res show ?thesis
  proof
    assume "generateSolarSystem parentStar s = Inr (sort_key planet_orbitRadius ps, s3)
                \<and> list_ex (\<lambda>p. isInHabitableZone (planet_orbitRadius p) hz) ps"
    then show ?thesis using len by blast
  next
    assume "\<exists>k<length ps.
                   generateSolarSystem parentStar s =
                     Inr (sort_key planet_orbitRadius
                            (ps[k := (ps ! k)\<lparr>planet_orbitRadius :=
                                  (hz_innerBoundary hz + hz_outerBoundary hz) / 2\<rparr>]), s3)"
    then obtain k where k: "k < length ps"
      and g: "generateSolarSystem parentStar s =
                     Inr (sort_key planet_orbitRadius
                            (ps[k := (ps ! k)\<lparr>planet_orbitRadius :=
                                  (hz_innerBoundary hz + hz_outerBoundary hz) / 2\<rparr>]), s3)"
      by blast
    let ?ps' = "ps[k := (ps ! k)\<lparr>planet_orbitRadius :=
                                  (hz_innerBoundary hz + hz_outerBoundary hz) / 2\<rparr>]"
    have "hz_innerBoundary hz \<le> hz_outerBoundary hz \<longrightarrow>
            list_ex (\<lambda>p. isInHabitableZone (planet_orbitRadius p) hz) ?ps'"
      using list_ex_update [OF k, of "\<lambda>p. isInHabitableZone (planet_orbitRadius p) hz"]
        midpoint_in_zone [of hz] by simp
    moreover have "3 \<le> length ?ps' \<and> length ?ps' \<le> 18" using len by simp
    ultimately show ?thesis using g by blast
  qed
qed

lemma list_ex_sort_key: "list_ex P (sort_key f xs) = list_ex P xs"
  by (simp add: list_ex_iff)

text \<open>
  Claim C6. Every solar system returned by \<open>generateSolarSystem\<close> (for a star that has
  its zone) and by \<open>generateOrbit\<close> (for every seed and every state of the two random
  sources) is sorted ascending by \<open>orbitRadius\<close> and has between 3 and 18 planets; both
  functions return, they do not throw.
\<close>

theorem solarSystem_sorted_bounded:
  "(star_habitableZone parentStar = Some hz \<longrightarrow>
      (\<exists>sys s'. generateSolarSystem parentStar s = Inr (sys, s')
         \<and> sorted (map planet_orbitRadius sys) \<and> 3 \<le> length sys \<and> length sys \<le> 18))
   \<and> (\<exists>orb s'. generateOrbit seed s = Inr (orb, s')
         \<and> sorted (map planet_orbitRadius (orbit_solarSystem orb))
         \<and> 3 \<le> length (orbit_solarSystem orb) \<and> length (orbit_solarSystem orb) \<le> 18)"
proof -
  have gss: "\<exists>sys s'. generateSolarSystem st t = Inr (sys, s')
         \<and> sorted (map planet_orbitRadius sys) \<and> 3 \<le> length sys \<and> length sys \<le> 18"
    if "star_habitableZone st = Some z" for st z t
  proof -
    from generateSolarSystem_summary [OF that, of t] obtain ps s' where
      "generateSolarSystem st t = Inr (sort_key planet_orbitRadius ps, s')"
      "3 \<le> length ps" "length ps \<le> 18" by blast
    then show ?thesis by (intro exI [of _ "sort_key planet_orbitRadius ps"] exI [of _ s']) simp
  qed
  obtain sys s' where sys: "generateSolarSystem (orbit_star seed s) (snd (generateParentStar (start_state seed s))) = Inr (sys, s')"
    "sorted (map planet_orbitRadius sys)" "3 \<le> length sys" "length sys \<le> 18"
    using gss orbit_star_zone by blast
  have "\<exists>orb s'. generateOrbit seed s = Inr (orb, s')
         \<and> sorted (map planet_orbitRadius (orbit_solarSystem orb))
         \<and> 3 \<le> length (orbit_solarSystem orb) \<and> length (orbit_solarSystem orb) \<le> 18"
    using sys by (simp add: generateOrbit_unfold)
  then show ?thesis using gss by blast
qed

theorem solarSystem_sorted_bounded_witness:
  "star_habitableZone unit_star = Some (calculateHabitableZone 1)
   \<and> (\<exists>sys s'. generateSolarSystem unit_star (engine 0) = Inr (sys, s')
         \<and> sorted (map planet_orbitRadius sys) \<and> 3 \<le> length sys \<and> length sys \<le> 18)"
proof -
  have h: "star_habitableZone unit_star = Some (calculateHabitableZone 1)"
    by (simp add: unit_star_def)
  show ?thesis
    using h solarSystem_sorted_bounded
              [of unit_star "calculateHabitableZone 1" "engine 0" "Some 42"]
    by blast
qed

text \<open>
  Claim C2. For every seed and every state of the two random sources, \<open>generateOrbit\<close>
  returns a system in which at least one planet satisfies \<open>isInHabitableZone\<close>, that is
  \<open>innerBoundary \<le> orbitRadius \<le> outerBoundary\<close>; and when no planet of a list lies in
  a zone with \<open>inner < outer\<close>, the relocation moves one planet to the midpoint
  \<open>(inner + outer) / 2\<close>, which is inside the zone.
\<close>

theorem habitable_planet_guaranteed:
  "(\<exists>orb s' zone. generateOrbit seed s = Inr (orb, s')
       \<and> orbit_habitableZone orb = Some zone
       \<and> list_ex (\<lambda>p. isInHabitableZone (planet_orbitRadius p) zone) (orbit_solarSystem orb)
       \<and> list_ex (\<lambda>p. hz_innerBoundary zone \<le> planet_orbitRadius p
                      \<and> planet_orbitRadius p \<le> hz_outerBoundary zone) (orbit_solarSystem orb))
   \<and> (hz_innerBoundary hz < hz_outerBoundary hz \<and> planets \<noteq> []
        \<and> \<not> list_ex (\<lambda>p. isInHabitableZone (planet_orbitRadius p) hz) planets \<longrightarrow>
        (\<exists>k planets' s'. k < length planets
           \<and> adjustForHabitableZonePlanet planets (Some hz) s = Inr (planets', s')
           \<and> planet_orbitRadius (planets' ! k) = (hz_innerBoundary hz + hz_outerBoundary hz) / 2
           \<and> isInHabitableZone (planet_orbitRadius (planets' ! k)) hz))"
proof -
  let ?st = "orbit_star seed s"
  let ?zone = "calculateHabitableZone (star_luminosity ?st)"
  have z: "star_habitableZone ?st = Some ?zone" and L: "0 < star_luminosity ?st"
    using orbit_star_zone by blast+
  have ord: "hz_innerBoundary ?zone \<le> hz_outerBoundary ?zone"
    using calculateHabitableZone_ordered L by simp
  from generateSolarSystem_summary [OF z, of "snd (generateParentStar (start_state seed s))"] ord
  obtain ps s' where g: "generateSolarSystem ?st (snd (generateParentStar (start_state seed s)))
        = Inr (sort_key planet_orbitRadius ps, s')"
    and ex: "list_ex (\<lambda>p. isInHabitableZone (planet_orbitRadius p) ?zone) ps"
    by blast
  have ex': "list_ex (\<lambda>p. isInHabitableZone (planet_orbitRadius p) ?zone) (sort_key planet_orbitRadius ps)"
    using ex by (simp only: list_ex_sort_key)
  have first: "\<exists>orb s' zone. generateOrbit seed s = Inr (orb, s')
       \<and> orbit_habitableZone orb = Some zone
       \<and> list_ex (\<lambda>p. isInHabitableZone (planet_orbitRadius p) zone) (orbit_solarSystem orb)
       \<and> list_ex (\<lambda>p. hz_innerBoundary zone \<le> planet_orbitRadius p
                      \<and> planet_orbitRadius p \<le> hz_outerBoundary zone) (orbit_solarSystem orb)"
    using g z ex' by (simp add: generateOrbit_unfold isInHabitableZone_def)
  have second: "\<exists>k planets' s'. k < length planets
           \<and> adjustForHabitableZonePlanet planets (Some hz) s = Inr (planets', s')
           \<and> planet_orbitRadius (planets' ! k) = (hz_innerBoundary hz + hz_outerBoundary hz) / 2
           \<and> isInHabitableZone (planet_orbitRadius (planets' ! k)) hz"
    if h: "hz_innerBoundary hz < hz_outerBoundary hz" "planets \<noteq> []"
        "\<not> list_ex (\<lambda>p. isInHabitableZone (planet_orbitRadius p) hz) planets"
  proof -
    from adjust_relocates [OF h(2,3), of s] obtain k where k: "k < length planets"
      and adj: "adjustForHabitableZonePlanet planets (Some hz) s =
             Inr (planets[k := (planets ! k)
                    \<lparr>planet_orbitRadius := (hz_innerBoundary hz + hz_outerBoundary hz) / 2\<rparr>],
                  snd (random s))"
      by blast
    have "isInHabitableZone ((hz_innerBoundary hz + hz_outerBoundary hz) / 2) hz"
      using midpoint_in_zone h(1) by simp
    then show ?thesis using k adj by auto
  qed
  show ?thesis using first second by blast
qed

theorem habitable_planet_guaranteed_witness:
  "hz_innerBoundary (calculateHabitableZone (star_luminosity unit_star))
     < hz_outerBoundary (calculateHabitableZone (star_luminosity unit_star))
   \<and> [far_planet] \<noteq> []
   \<and> \<not> list_ex (\<lambda>p. isInHabitableZone (planet_orbitRadius p)
                  (calculateHabitableZone (star_luminosity unit_star))) [far_planet]
   \<and> (\<exists>k planets' s'. k < length [far_planet]
         \<and> adjustForHabitableZonePlanet [far_planet]
              (Some (calculateHabitableZone (star_luminosity unit_star))) (engine 0)
            = Inr (planets', s')
         \<and> planet_orbitRadius (planets' ! k) =
             (hz_innerBoundary (calculateHabitableZone (star_luminosity unit_star))
              + hz_outerBoundary (calculateHabitableZone (star_luminosity unit_star))) / 2
         \<and> isInHabitableZone (planet_orbitRadius (planets' ! k))
             (calculateHabitableZone (star_luminosity unit_star)))"
proof -
  have h1: "hz_innerBoundary (calculateHabitableZone (star_luminosity unit_star))
     < hz_outerBoundary (calculateHabitableZone (star_luminosity unit_star))"
    using unit_star_bounds by (simp add: calculateHabitableZone_boundaries)
  have h2: "[far_planet] \<noteq> []" by simp
  have h3: "\<not> list_ex (\<lambda>p. isInHabitableZone (planet_orbitRadius p)
                  (calculateHabitableZone (star_luminosity unit_star))) [far_planet]"
    using unit_star_bounds
    by (simp add: isInHabitableZone_def calculateHabitableZone_boundaries far_planet_def)
  show ?thesis
    using h1 h2 h3
      habitable_planet_guaranteed
        [of "Some 42" "engine 0" "calculateHabitableZone (star_luminosity unit_star)"
            "[far_planet]"]
    by blast
qed

subsection \<open>Reproducibility\<close>

text \<open>With an engine whose \<open>Math.random\<close> is constant, every function of the pipeline
  leaves it constant, and every axial tilt is one of the values of \<open>tilts_of_draw\<close>.\<close>

lemma mathRandom_constant:
  assumes "unseeded s = constant_draws c"
  shows "fst (mathRandom s) = c \<and> unseeded (snd (mathRandom s)) = constant_draws c"
  using assms by (simp add: mathRandom_def constant_draws_def fun_eq_iff)

lemma determinePlanetType_constant:
  assumes "unseeded s = constant_draws c"
  shows "unseeded (snd (determinePlanetType_call3 parentStar r added s)) = constant_draws c"
  using assms mathRandom_constant [OF assms]
  by (simp add: determinePlanetType_call3_def determinePlanetType_def Let_def split_def)

lemma getPlanetSize_unseeded [simp]: "unseeded (snd (getPlanetSize t s)) = unseeded s"
  by (simp add: getPlanetSize_def)

lemma getPlanetMoons_unseeded [simp]: "unseeded (snd (getPlanetMoons t s)) = unseeded s"
  by (simp add: getPlanetMoons_def)

lemma randomAtmosphere_constant:
  assumes "unseeded s = constant_draws c" and "randomAtmosphere types s = (a, s')"
  shows "unseeded s' = constant_draws c"
  using mathRandom_constant [OF assms(1)] assms(2)
  by (auto simp: randomAtmosphere_def split_def Let_def)

lemma getPlanetAtmosphere_constant:
  assumes "unseeded s = constant_draws c"
    and "getPlanetAtmosphere t r hz s = Inr (a, s')"
  shows "unseeded s' = constant_draws c"
  using assms(2) assms(1)
  by (auto simp: getPlanetAtmosphere_def split: if_splits option.splits
           dest: randomAtmosphere_constant [OF assms(1)])

lemma getAxialTilt_constant:
  assumes "unseeded s = constant_draws c"
  shows "unseeded (snd (getAxialTilt t s)) = constant_draws c
       \<and> fst (getAxialTilt t s) \<in> {c * 30, c * 20 + 10, c * 40, c * 75 + 15, c * 80 + 10, c * 25}"
proof -
  have "unseeded s 0 = c" using assms by (simp add: constant_draws_def)
  moreover have "unseeded (snd (getAxialTilt t s)) = constant_draws c"
    using assms by (simp add: getAxialTilt_state constant_draws_def fun_eq_iff)
  ultimately show ?thesis by (simp add: getAxialTilt_value)
qed

lemma solarSystem_iteration_constant:
  assumes "unseeded s = constant_draws c"
    and "solarSystem_iteration parentStar i N added s = Inr (p, added', s')"
  shows "unseeded s' = constant_draws c \<and> planet_axialTilt p \<in> tilts_of_draw c"
proof -
  define r where "r = getRandomOrbitRadius parentStar i N"
  obtain t s1 where t: "determinePlanetType_call3 parentStar r added s = (t, s1)"
    by (cases "determinePlanetType_call3 parentStar r added s")
  obtain sz s2 where sz: "getPlanetSize t s1 = (sz, s2)" by (cases "getPlanetSize t s1")
  have c2: "unseeded s2 = constant_draws c"
    using determinePlanetType_constant [OF assms(1), of parentStar r added] t
      getPlanetSize_unseeded [of t s1] sz by simp
  from assms(2) obtain a s3 where
    a: "getPlanetAtmosphere t r (star_habitableZone parentStar) s2 = Inr (a, s3)"
    by (cases "getPlanetAtmosphere t r (star_habitableZone parentStar) s2")
       (auto simp: solarSystem_iteration_def Let_def t sz r_def [symmetric])
  have c3: "unseeded s3 = constant_draws c"
    using getPlanetAtmosphere_constant [OF c2 a] .
  obtain m s4 where m: "getPlanetMoons t s3 = (m, s4)" by (cases "getPlanetMoons t s3")
  have c4: "unseeded s4 = constant_draws c"
    using c3 getPlanetMoons_unseeded [of t s3] m by simp
  obtain x s5 where x: "getAxialTilt t s4 = (x, s5)" by (cases "getAxialTilt t s4")
  have c5: "unseeded s5 = constant_draws c" "x \<in> tilts_of_draw c"
    using getAxialTilt_constant [OF c4, of t] x by (simp_all add: tilts_of_draw_def)
  have "s' = s5 \<and> planet_axialTilt p = x"
    using assms(2)
    by (auto simp: solarSystem_iteration_def Let_def t sz a m x r_def [symmetric]
             split: option.splits)
  then show ?thesis using c5 by simp
qed

lemma solarSystem_loop_constant:
  assumes "unseeded s = constant_draws c"
    and "\<forall>p \<in> set acc. planet_axialTilt p \<in> tilts_of_draw c"
    and "solarSystem_loop parentStar N i acc added s = Inr (ps, added', s')"
  shows "\<forall>p \<in> set ps. planet_axialTilt p \<in> tilts_of_draw c"
  using assms
proof (induction parentStar N i acc added s rule: solarSystem_loop.induct)
  case (1 parentStar N i acc added s)
  show ?case
  proof (cases "int i < N")
    case False
    then show ?thesis using "1.prems" by simp
  next
    case True
    from "1.prems"(3) True obtain p a1 s1 where
      it: "solarSystem_iteration parentStar i N added s = Inr (p, a1, s1)"
      and rec: "solarSystem_loop parentStar N (Suc i) (acc @ [p]) a1 s1 = Inr (ps, added', s')"
      by (cases "solarSystem_iteration parentStar i N added s") auto
    from solarSystem_iteration_constant [OF "1.prems"(1) it]
    have c1: "unseeded s1 = constant_draws c" and tp: "planet_axialTilt p \<in> tilts_of_draw c"
      by simp_all
    have acc': "\<forall>q \<in> set (acc @ [p]). planet_axialTilt q \<in> tilts_of_draw c"
      using "1.prems"(2) tp by simp
    show ?thesis
      using "1.IH" [OF True it refl refl c1 acc' rec] .
  qed
qed

lemma adjust_result:
  assumes "adjustForHabitableZonePlanet planets hz s = Inr (planets', s')"
  shows "planets' = planets \<or>
        (\<exists>k v. k < length planets \<and> planets' = planets[k := (planets ! k)\<lparr>planet_orbitRadius := v\<rparr>])"
proof (cases hz)
  case None
  then show ?thesis using assms by (simp add: adjustForHabitableZonePlanet_def)
next
  case (Some z)
  show ?thesis
  proof (cases "list_ex (\<lambda>p. isInHabitableZone (planet_orbitRadius p) z) planets")
    case True
    then show ?thesis using assms Some adjust_unchanged by simp
  next
    case False
    have ne: "planets \<noteq> []"
    proof
      assume "planets = []"
      then have "adjustForHabitableZonePlanet planets hz s = Inl TypeError"
        using Some by (simp add: adjustForHabitableZonePlanet_def array_get_def split_def Let_def)
      then show False using assms by simp
    qed
    from adjust_relocates [OF ne False, of s] assms Some show ?thesis by auto
  qed
qed

lemma adjust_keeps_tilts:
  assumes "adjustForHabitableZonePlanet planets hz s = Inr (planets', s')"
    and "\<forall>p \<in> set planets. planet_axialTilt p \<in> T"
  shows "\<forall>p \<in> set planets'. planet_axialTilt p \<in> T"
proof -
  from adjust_result [OF assms(1)] show ?thesis
  proof
    assume "planets' = planets"
    then show ?thesis using assms(2) by simp
  next
    assume "\<exists>k v. k < length planets \<and> planets' = planets[k := (planets ! k)\<lparr>planet_orbitRadius := v\<rparr>]"
    then obtain k v where k: "k < length planets"
      and p': "planets' = planets[k := (planets ! k)\<lparr>planet_orbitRadius := v\<rparr>]" by blast
    have "planet_axialTilt ((planets ! k)\<lparr>planet_orbitRadius := v\<rparr>) \<in> T"
      using assms(2) k by simp
    moreover have "set planets' \<subseteq> insert ((planets ! k)\<lparr>planet_orbitRadius := v\<rparr>) (set planets)"
      unfolding p' by (rule set_update_subset_insert)
    ultimately show ?thesis using assms(2) by blast
  qed
qed

lemma generateSolarSystem_constant:
  assumes "unseeded s = constant_draws c"
    and "generateSolarSystem parentStar s = Inr (sys, s')"
  shows "\<forall>p \<in> set sys. planet_axialTilt p \<in> tilts_of_draw c"
proof -
  define N where "N = fst (getRandomInt 3 18 s)"
  define s1 where "s1 = snd (getRandomInt 3 18 s)"
  have c1: "unseeded s1 = constant_draws c" using assms(1) by (simp add: s1_def)
  have unf: "generateSolarSystem parentStar s =
     (case solarSystem_loop parentStar N 0 [] False s1 of
        Inl e \<Rightarrow> Inl e
      | Inr (ps, added, s2) \<Rightarrow>
          (case (if \<not> added
                 then adjustForHabitableZonePlanet ps (star_habitableZone parentStar) s2
                 else Inr (ps, s2)) of
             Inl e \<Rightarrow> Inl e
           | Inr (adjusted, s3) \<Rightarrow> Inr (sort_key planet_orbitRadius adjusted, s3)))"
    unfolding generateSolarSystem_def split_def Let_def N_def s1_def by (rule refl)
  obtain ps added s2 where
    loop: "solarSystem_loop parentStar N 0 [] False s1 = Inr (ps, added, s2)"
  proof (cases "solarSystem_loop parentStar N 0 [] False s1")
    case (Inl e)
    then show ?thesis using assms(2) unf by simp
  next
    case (Inr r)
    then show ?thesis using that by (cases r) auto
  qed
  have tl: "\<forall>p \<in> set ps. planet_axialTilt p \<in> tilts_of_draw c"
    using solarSystem_loop_constant [OF c1 _ loop] by simp
  define res where "res = (if \<not> added
                 then adjustForHabitableZonePlanet ps (star_habitableZone parentStar) s2
                 else Inr (ps, s2))"
  have g: "generateSolarSystem parentStar s =
      (case res of Inl e \<Rightarrow> Inl e
       | Inr (adjusted, s3) \<Rightarrow> Inr (sort_key planet_orbitRadius adjusted, s3))"
    unfolding unf loop res_def by simp
  obtain adjusted s3 where r: "res = Inr (adjusted, s3)"
  proof (cases res)
    case (Inl e)
    then show ?thesis using assms(2) g by simp
  next
    case (Inr r)
    then show ?thesis using that by (cases r) auto
  qed
  have sys: "sys = sort_key planet_orbitRadius adjusted"
    using assms(2) g r by simp
  have "\<forall>p \<in> set adjusted. planet_axialTilt p \<in> tilts_of_draw c"
  proof (cases added)
    case True
    then show ?thesis using r tl by (simp add: res_def)
  next
    case False
    then have "adjustForHabitableZonePlanet ps (star_habitableZone parentStar) s2 = Inr (adjusted, s3)"
      using r by (simp add: res_def)
    from adjust_keeps_tilts [OF this tl] show ?thesis .
  qed
  then show ?thesis unfolding sys by simp
qed

lemma generateOrbit_returns:
  "\<exists>orb s'. generateOrbit seed s = Inr (orb, s') \<and> orbit_solarSystem orb \<noteq> []"
proof -
  have z: "star_habitableZone (orbit_star seed s)
             = Some (calculateHabitableZone (star_luminosity (orbit_star seed s)))"
    using orbit_star_zone by blast
  from generateSolarSystem_summary [OF z, of "snd (generateParentStar (start_state seed s))"]
  obtain ps s' where g: "generateSolarSystem (orbit_star seed s)
        (snd (generateParentStar (start_state seed s))) = Inr (sort_key planet_orbitRadius ps, s')"
    and len: "3 \<le> length ps" by blast
  have "sort_key planet_orbitRadius ps \<noteq> []"
    using len by (metis length_sort list.size(3) not_numeral_le_zero)
  then show ?thesis using g by (simp add: generateOrbit_unfold)
qed

lemma generateOrbit_constant:
  assumes "unseeded s = constant_draws c"
    and "generateOrbit seed s = Inr (orb, s')"
  shows "\<forall>p \<in> set (orbit_solarSystem orb). planet_axialTilt p \<in> tilts_of_draw c"
proof -
  have "unseeded (start_state seed s) = constant_draws c"
    using assms(1) by (simp add: start_state_def set_random_seed_def split: option.splits)
  then have c1: "unseeded (snd (generateParentStar (start_state seed s))) = constant_draws c"
    by simp
  from assms(2) obtain s2 where
    "generateSolarSystem (orbit_star seed s) (snd (generateParentStar (start_state seed s)))
       = Inr (orbit_solarSystem orb, s2)"
    by (auto simp: generateOrbit_unfold split: sum.splits)
  from generateSolarSystem_constant [OF c1 this] show ?thesis .
qed

text \<open>
  Claim C1 fails on the code. \<open>generateOrbit(42)\<close> reseeds the seeded generator, but
  \<open>getAxialTilt\<close>, \<open>getPlanetAtmosphere\<close> and the habitable band of
  \<open>determinePlanetType\<close> draw from \<open>Math.random\<close>, which the seed does not reach: with
  an engine that returns \<open>0\<close> during the first call and \<open>0.1\<close> during the second, the
  two results differ (every axial tilt of the first is 0, 10 or 15, none of the second is).
\<close>

theorem generateOrbit_not_reproducible:
  "map_sum id fst (generateOrbit (Some 42) (engine 0))
     \<noteq> map_sum id fst (generateOrbit (Some 42) (engine (1/10)))"
proof
  assume eq: "map_sum id fst (generateOrbit (Some 42) (engine 0))
     = map_sum id fst (generateOrbit (Some 42) (engine (1/10)))"
  obtain orbA sA where a: "generateOrbit (Some 42) (engine 0) = Inr (orbA, sA)"
    and ne: "orbit_solarSystem orbA \<noteq> []"
    using generateOrbit_returns by blast
  obtain orbB sB where b: "generateOrbit (Some 42) (engine (1/10)) = Inr (orbB, sB)"
    using generateOrbit_returns by blast
  have same: "orbA = orbB" using eq a b by simp
  obtain p where p: "p \<in> set (orbit_solarSystem orbA)"
    using ne by (cases "orbit_solarSystem orbA") auto
  have "planet_axialTilt p \<in> tilts_of_draw 0"
    using generateOrbit_constant [OF _ a] p by (simp add: engine_def)
  moreover have "planet_axialTilt p \<in> tilts_of_draw (1/10)"
    using generateOrbit_constant [OF _ b] p same by (simp add: engine_def)
  ultimately show False by (auto simp: tilts_of_draw_def)
qed

end
